theory Spec2Isabelle
  imports Main
begin

section \<open>Shared data model\<close>

text \<open>
  The screens of the client each declare an \<open>Article\<close> interface; all of them carry the
  fields below (the richer screens add \<open>bullets\<close>, \<open>provider_url\<close>, \<open>image_url\<close> and
  \<open>topics\<close>, which no pager reads). The field \<open>id\<close> is written \<open>article_id\<close>, since
  \<open>id\<close> is the identity function of HOL. Strings are lists of bytes, the UTF-8 form of the text.
\<close>

record article =
  article_id :: string
  title :: string
  summary :: string
  url :: string
  provider :: string
  timestamp :: int
  tickers :: "(string \<times> string) list"

text \<open>
  The body of a paginated list response: \<open>response.articles\<close> and
  \<open>response.pagination.has_next\<close>.
\<close>

record articles_response =
  articles :: "article list"
  has_next :: bool

text \<open>
  A JSON value as \<open>JSON.parse\<close> and \<open>response.json()\<close> deliver it. Numbers are kept as
  integers; an object keeps its members in the order of the text.
\<close>

datatype json =
    JNull
  | JBool bool
  | JNum int
  | JStr string
  | JArr "json list"
  | JObj "(string \<times> json) list"

text \<open>
  What a rejected promise or a \<open>throw\<close> carries: \<open>new Error(message)\<close> with its message;
  \<open>TypeError\<close> is a property read on \<open>null\<close> or \<open>undefined\<close>, or a call of something
  that is no function; \<open>SyntaxError\<close> is a text that is not JSON; \<open>StorageError\<close> and
  \<open>NetworkError\<close> are rejections of the key-value storage and of \<open>fetch\<close>.
\<close>

datatype js_error =
    Error string
  | TypeError
  | SyntaxError
  | StorageError
  | NetworkError

text \<open>
  A value passed in a parameter object of \<open>getArticles\<close> or \<open>getAllTopics\<close>: a number or
  a string. \<open>undefined\<close> is \<open>None\<close> of \<open>param_value option\<close>.
\<close>

datatype param_value = Num int | Str string

text \<open>
  Decimal digits of a natural number, as a template literal or \<open>toString\<close> prints a
  non-negative integer.
\<close>

fun dec :: "nat \<Rightarrow> string" where
  "dec n = (if n < 10 then [''0123456789'' ! n]
            else dec (n div 10) @ [''0123456789'' ! (n mod 10)])"

declare dec.simps [simp del]

text \<open>
  The operations of the API service that send a request, with their arguments. The
  parameter object of \<open>getArticles\<close> and \<open>getAllTopics\<close> is the list of its entries
  (\<open>Object.entries\<close>), in the order of the object's keys.
\<close>

datatype api_call =
    Register string string string
  | Login string string
  | GetCurrentUser
  | GetArticles "(string \<times> param_value option) list"
  | GetArticle string
  | GetArticlesByTicker string nat nat
  | GetArticlesByTopic string nat nat
  | SearchTickers string nat nat
  | GetTicker string
  | FollowTicker string
  | UnfollowTicker string
  | GetFollowedTickers
  | GetAllTopics "(string \<times> param_value option) list"
  | GetTopic string
  | GetTopicByName string
  | FollowTopic string
  | UnfollowTopic string
  | GetFollowedTopics
  | IsFollowingTopic string
  | GetTopicArticles string nat nat

section \<open>The topic feed of the home screen (\<open>app/(tabs)/index.tsx\<close>)\<close>

record topic =
  topic_id :: string
  topic_name :: string

text \<open>
  The state of the component. \<open>page\<close> and \<open>hasMore\<close> are maps keyed by topic id here and
  plain values in the other screens, so the fields carry a suffix per screen.
\<close>

record topic_feed =
  topics :: "topic list"
  selectedTopicIndex :: nat
  articlesByTopic :: "string \<rightharpoonup> article list"
  loadingArticles :: bool
  page_t :: "string \<rightharpoonup> nat"
  hasMore_t :: "string \<rightharpoonup> bool"

text \<open>
  \<open>loadArticlesForTopic\<close> up to its \<open>await\<close>: it raises the loading flag and issues one
  call, the unfiltered article list for the pseudo-topic \<open>for-you\<close> and the topic's own
  list otherwise.
\<close>

definition loadArticlesForTopic_call :: "string \<Rightarrow> nat \<Rightarrow> api_call" where
  "loadArticlesForTopic_call topicId pageNum =
     (if topicId = ''for-you''
      then GetArticles [(''page'', Some (Num (int pageNum))), (''per_page'', Some (Num 20))]
      else GetTopicArticles topicId pageNum 20)"

definition loadArticlesForTopic_begin :: "topic_feed \<Rightarrow> topic_feed" where
  "loadArticlesForTopic_begin s = s\<lparr>loadingArticles := True\<rparr>"

text \<open>
  \<open>loadArticlesForTopic\<close> from its \<open>await\<close> on. \<open>captured\<close> is the \<open>articlesByTopic\<close> of
  the render whose closure made the call: the function reads the existing list from it,
  and writes through the functional updates \<open>prev => new Map(prev).set(...)\<close>, which see
  the state of the moment. A rejected call changes only the loading flag (\<open>finally\<close>).
\<close>

definition loadArticlesForTopic_resolve ::
  "(string \<rightharpoonup> article list) \<Rightarrow> string \<Rightarrow> nat \<Rightarrow> js_error + articles_response
     \<Rightarrow> topic_feed \<Rightarrow> topic_feed" where
  "loadArticlesForTopic_resolve captured topicId pageNum result s =
     (case result of
        Inl e \<Rightarrow> s\<lparr>loadingArticles := False\<rparr>
      | Inr response \<Rightarrow>
          (let existingArticles = (case captured topicId of None \<Rightarrow> [] | Some xs \<Rightarrow> xs);
               existingIds = set (map article_id existingArticles);
               newUniqueArticles = filter (\<lambda>a. article_id a \<notin> existingIds) (articles response);
               newArticles = (if pageNum = 1 then articles response
                              else existingArticles @ newUniqueArticles)
           in s\<lparr>articlesByTopic := (articlesByTopic s)(topicId \<mapsto> newArticles),
                page_t := (page_t s)(topicId \<mapsto> pageNum),
                hasMore_t := (hasMore_t s)(topicId \<mapsto> has_next response),
                loadingArticles := False\<rparr>))"

text \<open>One load run from call to completion with nothing else in between.\<close>

definition loadArticlesForTopic ::
  "string \<Rightarrow> nat \<Rightarrow> js_error + articles_response \<Rightarrow> topic_feed \<Rightarrow> topic_feed" where
  "loadArticlesForTopic topicId pageNum result s =
     loadArticlesForTopic_resolve (articlesByTopic s) topicId pageNum result
       (loadArticlesForTopic_begin s)"

text \<open>
  \<open>handleLoadMore\<close>: the load it starts, if any, as the arguments of
  \<open>loadArticlesForTopic\<close>. \<open>topics[selectedTopicIndex]\<close> out of range is \<open>undefined\<close>, and
  reading its \<open>id\<close> throws. \<open>page.get(id) || 1\<close> takes 1 for a missing entry and for 0;
  \<open>hasMore.get(id) ?? true\<close> takes \<open>true\<close> for a missing entry.
\<close>

definition handleLoadMore :: "topic_feed \<Rightarrow> js_error + (string \<times> nat) option" where
  "handleLoadMore s =
     (if length (topics s) > 0 \<and> \<not> loadingArticles s then
        (if selectedTopicIndex s < length (topics s) then
           (let selectedTopic = topics s ! selectedTopicIndex s;
                currentPage = (case page_t s (topic_id selectedTopic) of
                                 None \<Rightarrow> 1 | Some p \<Rightarrow> if p = 0 then 1 else p);
                hasMorePages = (case hasMore_t s (topic_id selectedTopic) of
                                 None \<Rightarrow> True | Some b \<Rightarrow> b)
            in if hasMorePages then Inr (Some (topic_id selectedTopic, currentPage + 1))
               else Inr None)
         else Inl TypeError)
      else Inr None)"

text \<open>
  The pager's \<open>loadNext\<close> on the topic feed: \<open>handleLoadMore\<close>, and the load it starts
  run to completion with the server's answer \<open>result\<close>. The second component is the call
  that went to the network.
\<close>

definition loadNext :: "js_error + articles_response \<Rightarrow> topic_feed \<Rightarrow> topic_feed \<times> api_call option" where
  "loadNext result s =
     (case handleLoadMore s of
        Inr (Some (topicId, pageNum)) \<Rightarrow>
          (loadArticlesForTopic topicId pageNum result s,
           Some (loadArticlesForTopic_call topicId pageNum))
      | _ \<Rightarrow> (s, None))"


text \<open>The article list shown for a feed key: \<open>articlesByTopic.get(id) || []\<close>.\<close>

definition feed_articles :: "topic_feed \<Rightarrow> string \<Rightarrow> article list" where
  "feed_articles s k = (case articlesByTopic s k of None \<Rightarrow> [] | Some xs \<Rightarrow> xs)"

subsection \<open>Loads in flight and the change of tab\<close>

text \<open>
  A load of the topic feed between its \<open>await\<close> and the answer: the \<open>articlesByTopic\<close>
  its closure holds, and its arguments.
\<close>

record load =
  load_captured :: "string \<rightharpoonup> article list"
  load_topic :: string
  load_page :: nat

record topic_world =
  screen_t :: topic_feed
  in_flight :: "load list"

definition start_load :: "string \<Rightarrow> nat \<Rightarrow> topic_world \<Rightarrow> topic_world" where
  "start_load topicId pageNum w =
     w\<lparr>screen_t := loadArticlesForTopic_begin (screen_t w),
       in_flight := in_flight w @
         [\<lparr>load_captured = articlesByTopic (screen_t w), load_topic = topicId,
           load_page = pageNum\<rparr>]\<rparr>"

text \<open>
  The effect on \<open>[selectedTopicIndex, topics]\<close>: it loads page 1 of the selected topic
  when the feed holds no entry for it, and does not read \<open>loadingArticles\<close>.
\<close>

definition tab_effect :: "topic_world \<Rightarrow> js_error + topic_world" where
  "tab_effect w =
     (if length (topics (screen_t w)) > 0 then
        (if selectedTopicIndex (screen_t w) < length (topics (screen_t w)) then
           (let selectedTopic = topics (screen_t w) ! selectedTopicIndex (screen_t w)
            in if articlesByTopic (screen_t w) (topic_id selectedTopic) = None
               then Inr (start_load (topic_id selectedTopic) 1 w)
               else Inr w)
         else Inl TypeError)
      else Inr w)"

text \<open>
  \<open>handleTopicChange(index)\<close>, with the effect that the new index sets off; the same
  index again changes nothing.
\<close>

definition handleTopicChange :: "nat \<Rightarrow> topic_world \<Rightarrow> js_error + topic_world" where
  "handleTopicChange index w =
     (if index = selectedTopicIndex (screen_t w) then Inr w
      else tab_effect (w\<lparr>screen_t := (screen_t w)\<lparr>selectedTopicIndex := index\<rparr>\<rparr>))"

text \<open>
  What happens to the topic feed: the list reaches its end, a tab is pressed, or the
  answer to the \<open>i\<close>-th load in flight arrives.
\<close>

datatype topic_event =
    TopicEndReached
  | TopicChange nat
  | TopicAnswer nat "js_error + articles_response"

definition topic_step :: "topic_event \<Rightarrow> topic_world \<Rightarrow> js_error + topic_world" where
  "topic_step e w =
     (case e of
        TopicEndReached \<Rightarrow>
          (case handleLoadMore (screen_t w) of
             Inl err \<Rightarrow> Inl err
           | Inr None \<Rightarrow> Inr w
           | Inr (Some (topicId, pageNum)) \<Rightarrow> Inr (start_load topicId pageNum w))
      | TopicChange index \<Rightarrow> handleTopicChange index w
      | TopicAnswer i result \<Rightarrow>
          (if i < length (in_flight w) then
             Inr (w\<lparr>screen_t :=
                      loadArticlesForTopic_resolve (load_captured (in_flight w ! i))
                        (load_topic (in_flight w ! i)) (load_page (in_flight w ! i)) result
                        (screen_t w),
                    in_flight := take i (in_flight w) @ drop (Suc i) (in_flight w)\<rparr>)
           else Inr w))"

fun topic_run :: "topic_event list \<Rightarrow> topic_world \<Rightarrow> js_error + topic_world" where
  "topic_run [] w = Inr w"
| "topic_run (e # es) w =
     (case topic_step e w of
        Inl err \<Rightarrow> Inl err
      | Inr w1 \<Rightarrow> topic_run es w1)"

section \<open>The article list with search (\<open>app/(tabs)/index.tsx\<close>, list version)\<close>

record list_feed =
  articles_l :: "article list"
  loading_l :: bool
  refreshing_l :: bool
  page_l :: nat
  hasMore_l :: bool
  searchQuery :: string
  searchTimer :: "nat option"

text \<open>
  \<open>loadArticles(pageNum, search)\<close>. The call it sends: \<open>search || undefined\<close> leaves the
  parameter undefined for the empty string.
\<close>

definition loadArticles_call :: "nat \<Rightarrow> string \<Rightarrow> api_call" where
  "loadArticles_call pageNum search =
     GetArticles [(''page'', Some (Num (int pageNum))),
                  (''per_page'', Some (Num 20)),
                  (''search'', if search = [] then None else Some (Str search))]"

text \<open>
  \<open>loadArticles\<close> from its \<open>await\<close> on. The list is written through
  \<open>setArticles(prev => [...prev, ...response.articles])\<close>, so \<open>prev\<close> is the list of the
  moment the answer arrives. A rejected call shows an alert and changes only the flags.
\<close>

definition loadArticles_resolve ::
  "nat \<Rightarrow> js_error + articles_response \<Rightarrow> list_feed \<Rightarrow> list_feed" where
  "loadArticles_resolve pageNum result s =
     (case result of
        Inl e \<Rightarrow> s\<lparr>loading_l := False, refreshing_l := False\<rparr>
      | Inr response \<Rightarrow>
          s\<lparr>articles_l := (if pageNum = 1 then articles response
                            else articles_l s @ articles response),
            hasMore_l := has_next response,
            page_l := pageNum,
            loading_l := False,
            refreshing_l := False\<rparr>)"

text \<open>
  The handlers return the new state and the arguments of the \<open>loadArticles\<close> call they
  make, if any.
\<close>

definition handleRefresh :: "list_feed \<Rightarrow> list_feed \<times> (nat \<times> string) option" where
  "handleRefresh s = (s\<lparr>refreshing_l := True, page_l := 1\<rparr>, Some (1, searchQuery s))"

definition handleLoadMore_l :: "list_feed \<Rightarrow> list_feed \<times> (nat \<times> string) option" where
  "handleLoadMore_l s =
     (if \<not> loading_l s \<and> hasMore_l s then (s, Some (page_l s + 1, searchQuery s))
      else (s, None))"


subsection \<open>Timers and the debounced search\<close>

text \<open>
  A pending \<open>setTimeout\<close>: its id, the time in milliseconds at which it is due, and the
  \<open>text\<close> its callback closes over.
\<close>

record timer =
  timer_id :: nat
  due :: nat
  timer_text :: string

text \<open>
  The screen together with the timer queue of the runtime, the clock, and the log of the
  \<open>loadArticles\<close> calls made so far: time, page number and search text of each.
\<close>

record world =
  feed :: list_feed
  timers :: "timer list"
  next_id :: nat
  clock :: nat
  calls :: "(nat \<times> nat \<times> string) list"

text \<open>
  \<open>handleSearch(text)\<close>: \<open>if (searchTimer) clearTimeout(searchTimer)\<close> cancels the timer
  whose id the state holds (an id is truthy unless it is 0; cancelling a timer that has
  fired does nothing), then a new timer is set 500 ms ahead and its id stored. The
  handler reads the state that the previous keystroke left: the component has rendered
  in between.
\<close>

definition handleSearch :: "string \<Rightarrow> world \<Rightarrow> world" where
  "handleSearch text w =
     (let cleared = (case searchTimer (feed w) of
                       None \<Rightarrow> timers w
                     | Some i \<Rightarrow> if i \<noteq> 0 then filter (\<lambda>x. timer_id x \<noteq> i) (timers w)
                                else timers w);
          newTimer = \<lparr>timer_id = next_id w, due = clock w + 500, timer_text = text\<rparr>
      in w\<lparr>feed := (feed w)\<lparr>searchQuery := text, searchTimer := Some (next_id w)\<rparr>,
           timers := cleared @ [newTimer],
           next_id := next_id w + 1\<rparr>)"

text \<open>
  The timer's callback: \<open>setPage(1); setLoading(true); loadArticles(1, text)\<close>, run at the
  time the timer is due.
\<close>

definition fire :: "timer \<Rightarrow> world \<Rightarrow> world" where
  "fire x w =
     w\<lparr>feed := (feed w)\<lparr>page_l := 1, loading_l := True\<rparr>,
       calls := calls w @ [(due x, 1, timer_text x)]\<rparr>"

text \<open>
  Time passes to \<open>t\<close>: the timers due by then fire, in the order of the queue (every
  timer has the same delay, so this is the order in which they are due).
\<close>

definition advance :: "nat \<Rightarrow> world \<Rightarrow> world" where
  "advance t w =
     (fold fire (filter (\<lambda>x. due x \<le> t) (timers w))
        (w\<lparr>timers := filter (\<lambda>x. \<not> due x \<le> t) (timers w)\<rparr>))
       \<lparr>clock := max t (clock w)\<rparr>"

text \<open>
  What happens to the screen: a keystroke in the search box, the answer to the \<open>i\<close>-th
  call of the log arriving, a pull to refresh, or the list reaching its end. A handler
  that calls \<open>loadArticles\<close> adds the call to the log.
\<close>

datatype event =
    Keystroke string
  | Arrive nat "js_error + articles_response"
  | Refresh
  | EndReached

definition log_call :: "list_feed \<times> (nat \<times> string) option \<Rightarrow> world \<Rightarrow> world" where
  "log_call r w =
     (case snd r of
        None \<Rightarrow> w\<lparr>feed := fst r\<rparr>
      | Some (pageNum, search) \<Rightarrow>
          w\<lparr>feed := fst r, calls := calls w @ [(clock w, pageNum, search)]\<rparr>)"

definition handle_event :: "event \<Rightarrow> world \<Rightarrow> world" where
  "handle_event e w =
     (case e of
        Keystroke text \<Rightarrow> handleSearch text w
      | Arrive i result \<Rightarrow>
          (if i < length (calls w)
           then w\<lparr>feed := loadArticles_resolve (fst (snd (calls w ! i))) result (feed w)\<rparr>
           else w)
      | Refresh \<Rightarrow> log_call (handleRefresh (feed w)) w
      | EndReached \<Rightarrow> log_call (handleLoadMore_l (feed w)) w)"

fun run_events :: "(nat \<times> event) list \<Rightarrow> world \<Rightarrow> world" where
  "run_events [] w = w"
| "run_events ((t, e) # es) w = run_events es (handle_event e (advance t w))"

text \<open>
  What the screen offers. While \<open>loading && page === 1\<close> the component returns its loading
  view, which holds neither the search box nor the list; otherwise it returns the list
  with the search box in its header, the refresh control and \<open>onEndReached\<close>. An answer
  can arrive for a call that was made and has not been answered.
\<close>

definition list_shown :: "list_feed \<Rightarrow> bool" where
  "list_shown s = (\<not> (loading_l s \<and> page_l s = 1))"

definition offered :: "event \<Rightarrow> world \<Rightarrow> nat list \<Rightarrow> bool" where
  "offered e w answered =
     (case e of
        Arrive i result \<Rightarrow> i < length (calls w) \<and> i \<notin> set answered
      | _ \<Rightarrow> list_shown (feed w))"

text \<open>
  A run in which every event is one the screen offers at its time, and time does not go
  back; \<open>None\<close> when an event is not offered. The second component lists the calls
  answered.
\<close>

fun run_offered :: "(nat \<times> event) list \<Rightarrow> world \<times> nat list \<Rightarrow> (world \<times> nat list) option" where
  "run_offered [] wa = Some wa"
| "run_offered ((t, e) # es) (w, answered) =
     (if clock w \<le> t \<and> offered e (advance t w) answered
      then run_offered es
             (handle_event e (advance t w),
              (case e of Arrive i result \<Rightarrow> i # answered | _ \<Rightarrow> answered))
      else None)"

text \<open>
  The screen as it mounts, at time 0: the state is the initial one, no timer is pending,
  and the mount effect has called \<open>loadArticles()\<close>, page 1 with no search text.
\<close>

definition initial_world :: world where
  "initial_world =
     \<lparr>feed = \<lparr>articles_l = [], loading_l = True, refreshing_l = False, page_l = 1,
              hasMore_l = True, searchQuery = [], searchTimer = None\<rparr>,
      timers = [], next_id = 1, clock = 0, calls = [(0, 1, [])]\<rparr>"

section \<open>The swipe deck (\<open>app/(tabs)/swipe.tsx\<close>, deck version)\<close>

record swipe_deck =
  articles_s :: "article list"
  loading_s :: bool
  currentIndex :: nat
  fetchingMore :: bool
  page_s :: nat

definition loadArticles_swipe_call :: "nat \<Rightarrow> api_call" where
  "loadArticles_swipe_call pageNum =
     GetArticles [(''page'', Some (Num (int pageNum))), (''per_page'', Some (Num 20))]"

definition loadArticles_swipe_begin :: "nat \<Rightarrow> swipe_deck \<Rightarrow> swipe_deck" where
  "loadArticles_swipe_begin pageNum s =
     (if pageNum = 1 then s\<lparr>loading_s := True\<rparr> else s\<lparr>fetchingMore := True\<rparr>)"

definition loadArticles_swipe_resolve ::
  "nat \<Rightarrow> js_error + articles_response \<Rightarrow> swipe_deck \<Rightarrow> swipe_deck" where
  "loadArticles_swipe_resolve pageNum result s =
     (case result of
        Inl e \<Rightarrow> s\<lparr>loading_s := False, fetchingMore := False\<rparr>
      | Inr response \<Rightarrow>
          s\<lparr>articles_s := (if pageNum = 1 then articles response
                            else articles_s s @ articles response),
            page_s := pageNum,
            loading_s := False,
            fetchingMore := False\<rparr>)"

text \<open>
  \<open>handleSwipedAll\<close> and \<open>handleSwiped\<close>: the new state and the call sent, if any.
  \<open>articles.length - 3\<close> is negative for a deck of fewer than three cards.
\<close>

definition handleSwipedAll :: "swipe_deck \<Rightarrow> swipe_deck \<times> api_call option" where
  "handleSwipedAll s =
     (loadArticles_swipe_begin (page_s s + 1) s, Some (loadArticles_swipe_call (page_s s + 1)))"

definition handleSwiped :: "nat \<Rightarrow> swipe_deck \<Rightarrow> swipe_deck \<times> api_call option" where
  "handleSwiped index s =
     (let s1 = s\<lparr>currentIndex := index + 1\<rparr>
      in if int index \<ge> int (length (articles_s s)) - 3 \<and> \<not> fetchingMore s
         then (loadArticles_swipe_begin (page_s s + 1) s1,
               Some (loadArticles_swipe_call (page_s s + 1)))
         else (s1, None))"

section \<open>The stock timeline (\<open>app/stock/[symbol].tsx\<close>)\<close>

text \<open>
  The pager's part of the screen's state; \<open>symbol\<close> is the route parameter. The mock
  price series that the screen derives from the list for its chart is drawn with
  \<open>Math.random\<close> and is no part of the pager.
\<close>

record stock_feed =
  symbol :: "string option"
  articles_k :: "article list"
  loading_k :: bool
  loadingMore :: bool
  page_k :: nat
  hasMore_k :: bool

text \<open>
  \<open>loadArticles(pageNum)\<close> of the stock screen up to its \<open>await\<close>: nothing happens
  without a symbol (\<open>undefined\<close> or the empty string).
\<close>

definition loadArticles_stock_begin :: "nat \<Rightarrow> stock_feed \<Rightarrow> stock_feed \<times> api_call option" where
  "loadArticles_stock_begin pageNum s =
     (case symbol s of
        None \<Rightarrow> (s, None)
      | Some sy \<Rightarrow>
          if sy = [] then (s, None)
          else ((if pageNum = 1 then s\<lparr>loading_k := True\<rparr> else s\<lparr>loadingMore := True\<rparr>),
                Some (GetArticlesByTicker sy pageNum 20)))"

text \<open>
  From the \<open>await\<close> on. \<open>captured\<close> is the \<open>articles\<close> of the render whose closure made
  the call: the new list is built from it and stored as a value. Has-more is whether the
  page is full.
\<close>

definition loadArticles_stock_resolve ::
  "article list \<Rightarrow> nat \<Rightarrow> js_error + articles_response \<Rightarrow> stock_feed \<Rightarrow> stock_feed" where
  "loadArticles_stock_resolve captured pageNum result s =
     (case result of
        Inl e \<Rightarrow> s\<lparr>loading_k := False, loadingMore := False\<rparr>
      | Inr response \<Rightarrow>
          (let newArticles = (if pageNum = 1 then articles response
                              else captured @ articles response)
           in s\<lparr>articles_k := newArticles,
                page_k := pageNum,
                hasMore_k := (length (articles response) = 20),
                loading_k := False,
                loadingMore := False\<rparr>))"

definition handleLoadMore_k :: "stock_feed \<Rightarrow> stock_feed \<times> api_call option" where
  "handleLoadMore_k s =
     (if \<not> loadingMore s \<and> hasMore_k s then loadArticles_stock_begin (page_k s + 1) s
      else (s, None))"

section \<open>The API service (\<open>app/services/api.ts\<close>)\<close>

subsection \<open>The values and strings of the language\<close>

text \<open>
  Strings are the UTF-8 bytes of the text. Percent-encoding and \<open>trim\<close> work on these
  bytes as the language does on the text; \<open>toUpperCase\<close> converts the letters of ASCII and
  leaves every other character as it is.
\<close>

definition show_int :: "int \<Rightarrow> string" where
  "show_int i = (if i < 0 then CHR ''-'' # dec (nat (- i)) else dec (nat i))"

text \<open>\<open>value.toString()\<close> of a parameter.\<close>

definition to_string :: "param_value \<Rightarrow> string" where
  "to_string v = (case v of Num i \<Rightarrow> show_int i | Str x \<Rightarrow> x)"

text \<open>\<open>xs.join(sep)\<close> on strings.\<close>

fun join :: "string \<Rightarrow> string list \<Rightarrow> string" where
  "join sep [] = []"
| "join sep [x] = x"
| "join sep (x # y # ys) = x @ sep @ join sep (y # ys)"

text \<open>
  \<open>String(v)\<close> of a JSON value; an array prints its elements separated by commas, with
  \<open>null\<close> as the empty string.
\<close>

fun to_str :: "json \<Rightarrow> string" where
  "to_str JNull = ''null''"
| "to_str (JBool b) = (if b then ''true'' else ''false'')"
| "to_str (JNum i) = show_int i"
| "to_str (JStr x) = x"
| "to_str (JArr xs) = join '','' (map (\<lambda>x. if x = JNull then [] else to_str x) xs)"
| "to_str (JObj fs) = ''[object Object]''"

text \<open>Whether a value counts as true in a condition.\<close>

definition truthy :: "json \<Rightarrow> bool" where
  "truthy v = (case v of
                 JNull \<Rightarrow> False
               | JBool b \<Rightarrow> b
               | JNum i \<Rightarrow> i \<noteq> 0
               | JStr x \<Rightarrow> x \<noteq> []
               | JArr xs \<Rightarrow> True
               | JObj fs \<Rightarrow> True)"

text \<open>
  The property read \<open>v.k\<close>, for the keys this client reads (none of them is a built-in
  property of a string, number or array): it throws on \<open>null\<close>, gives the member of an
  object (the last one, where the text repeated a key) and \<open>undefined\<close> otherwise.
\<close>

definition member :: "json \<Rightarrow> string \<Rightarrow> js_error + json option" where
  "member v k = (case v of
                   JNull \<Rightarrow> Inl TypeError
                 | JObj fs \<Rightarrow> Inr (map_of (rev fs) k)
                 | _ \<Rightarrow> Inr None)"

definition toUpperCase :: "string \<Rightarrow> string" where
  "toUpperCase x =
     map (\<lambda>c. let n = (of_char c :: nat)
               in if 97 \<le> n \<and> n \<le> 122 then char_of (n - 32) else c) x"

definition is_alnum :: "char \<Rightarrow> bool" where
  "is_alnum c =
     (let n = (of_char c :: nat)
      in (48 \<le> n \<and> n \<le> 57) \<or> (65 \<le> n \<and> n \<le> 90) \<or> (97 \<le> n \<and> n \<le> 122))"

definition percent :: "char \<Rightarrow> string" where
  "percent c =
     (let n = (of_char c :: nat)
      in [CHR ''%'', ''0123456789ABCDEF'' ! (n div 16), ''0123456789ABCDEF'' ! (n mod 16)])"

definition encodeURIComponent :: "string \<Rightarrow> string" where
  "encodeURIComponent x =
     concat (map (\<lambda>c. if is_alnum c \<or> c \<in> set ''-_.!~*'' \<or> c = CHR 0x27
                           \<or> c = CHR ''('' \<or> c = CHR '')''
                        then [c] else percent c) x)"

subsection \<open>Query strings\<close>

text \<open>
  \<open>URLSearchParams\<close> is the list of its name-value pairs. The loop over
  \<open>Object.entries(params)\<close> appends a pair for each entry whose value is not
  \<open>undefined\<close>.
\<close>

definition query_pairs :: "(string \<times> param_value option) list \<Rightarrow> (string \<times> string) list" where
  "query_pairs params =
     fold (\<lambda>(key, value) queryParams.
             (case value of
                None \<Rightarrow> queryParams
              | Some v \<Rightarrow> queryParams @ [(key, to_string v)]))
          params []"

text \<open>
  Its string form joins \<open>name=value\<close> with \<open>&\<close>, name and value encoded by the runtime:
  a browser encodes them as \<open>application/x-www-form-urlencoded\<close> (\<open>form_encode\<close>), React
  Native with \<open>encodeURIComponent\<close>. The encoder is the parameter \<open>encode\<close>.
\<close>

definition form_encode :: "string \<Rightarrow> string" where
  "form_encode x =
     concat (map (\<lambda>c. if is_alnum c \<or> c \<in> set ''*-._'' then [c]
                        else if c = CHR '' '' then ''+''
                        else percent c) x)"

definition query_string :: "(string \<Rightarrow> string) \<Rightarrow> (string \<times> string) list \<Rightarrow> string" where
  "query_string encode queryParams =
     join ''&'' (map (\<lambda>(k, v). encode k @ ''='' @ encode v) queryParams)"

subsection \<open>The token store\<close>

text \<open>
  The persistent key-value storage: its items, and the keys on which an operation is
  rejected (a storage error), which the service's \<open>try\<close>/\<open>catch\<close> blocks expect.
\<close>

record storage =
  items :: "string \<rightharpoonup> string"
  failing :: "string \<Rightarrow> bool"

definition getItem :: "string \<Rightarrow> storage \<Rightarrow> js_error + string option" where
  "getItem k st = (if failing st k then Inl StorageError else Inr (items st k))"

text \<open>The storage takes strings only; any other value is rejected.\<close>

definition setItem :: "string \<Rightarrow> json option \<Rightarrow> storage \<Rightarrow> js_error + storage" where
  "setItem k v st =
     (if failing st k then Inl StorageError
      else (case v of
              Some (JStr x) \<Rightarrow> Inr (st\<lparr>items := (items st)(k \<mapsto> x)\<rparr>)
            | _ \<Rightarrow> Inl StorageError))"

definition removeItem :: "string \<Rightarrow> storage \<Rightarrow> js_error + storage" where
  "removeItem k st =
     (if failing st k then Inl StorageError
      else Inr (st\<lparr>items := (items st)(k := None)\<rparr>))"

record api_service =
  token :: "string option"

text \<open>
  \<open>loadToken\<close>, \<open>saveToken\<close> and \<open>clearToken\<close>: each catches a storage error, logs it
  and goes on; the statements after the rejected one are skipped.
\<close>

definition loadToken :: "api_service \<times> storage \<Rightarrow> api_service \<times> storage" where
  "loadToken env =
     (case getItem ''access_token'' (snd env) of
        Inl e \<Rightarrow> env
      | Inr v \<Rightarrow> ((fst env)\<lparr>token := v\<rparr>, snd env))"

definition saveToken :: "json \<Rightarrow> api_service \<times> storage \<Rightarrow> api_service \<times> storage" where
  "saveToken tok env =
     (case setItem ''access_token'' (Some tok) (snd env) of
        Inl e \<Rightarrow> env
      | Inr st1 \<Rightarrow> ((fst env)\<lparr>token := Some (to_str tok)\<rparr>, st1))"

definition clearToken :: "api_service \<times> storage \<Rightarrow> api_service \<times> storage" where
  "clearToken env =
     (case removeItem ''access_token'' (snd env) of
        Inl e \<Rightarrow> env
      | Inr st1 \<Rightarrow>
          (case removeItem ''refresh_token'' st1 of
             Inl e \<Rightarrow> (fst env, st1)
           | Inr st2 \<Rightarrow> ((fst env)\<lparr>token := None\<rparr>, st2)))"

subsection \<open>Requests\<close>

record http_request =
  req_method :: string
  req_url :: string
  headers :: "(string \<times> string) list"
  req_body :: "json option"

definition getHeaders :: "bool \<Rightarrow> api_service \<Rightarrow> (string \<times> string) list" where
  "getHeaders includeAuth api =
     (''Content-Type'', ''application/json'') #
     (case token api of
        None \<Rightarrow> []
      | Some t \<Rightarrow> if includeAuth \<and> t \<noteq> [] then [(''Authorization'', ''Bearer '' @ t)] else [])"

text \<open>
  The request each operation hands to \<open>fetch\<close>. \<open>base\<close> is \<open>API_BASE_URL\<close>, which the
  build configuration supplies; \<open>encode\<close> is the encoder of the runtime's
  \<open>URLSearchParams\<close>.
\<close>

definition paged :: "nat \<Rightarrow> nat \<Rightarrow> string" where
  "paged p perPage = ''page='' @ dec p @ ''&per_page='' @ dec perPage"

fun request_of ::
  "(string \<Rightarrow> string) \<Rightarrow> string \<Rightarrow> api_service \<Rightarrow> api_call \<Rightarrow> http_request" where
  "request_of encode base api (Register name email password) =
     \<lparr>req_method = ''POST'', req_url = base @ ''/auth/register'', headers = getHeaders False api,
      req_body = Some (JObj [(''name'', JStr name), (''email'', JStr email),
                             (''password'', JStr password)])\<rparr>"
| "request_of encode base api (Login email password) =
     \<lparr>req_method = ''POST'', req_url = base @ ''/auth/login'', headers = getHeaders False api,
      req_body = Some (JObj [(''email'', JStr email), (''password'', JStr password)])\<rparr>"
| "request_of encode base api GetCurrentUser =
     \<lparr>req_method = ''GET'', req_url = base @ ''/auth/me'', headers = getHeaders True api,
      req_body = None\<rparr>"
| "request_of encode base api (GetArticles params) =
     \<lparr>req_method = ''GET'', req_url = base @ ''/articles?'' @ query_string encode (query_pairs params),
      headers = getHeaders True api, req_body = None\<rparr>"
| "request_of encode base api (GetArticle articleId) =
     \<lparr>req_method = ''GET'', req_url = base @ ''/articles/'' @ articleId,
      headers = getHeaders True api, req_body = None\<rparr>"
| "request_of encode base api (GetArticlesByTicker ticker p perPage) =
     \<lparr>req_method = ''GET'',
      req_url = base @ ''/articles/ticker/'' @ ticker @ ''?'' @ paged p perPage,
      headers = getHeaders True api, req_body = None\<rparr>"
| "request_of encode base api (GetArticlesByTopic topicName p perPage) =
     \<lparr>req_method = ''GET'',
      req_url = base @ ''/articles/topic/'' @ topicName @ ''?'' @ paged p perPage,
      headers = getHeaders True api, req_body = None\<rparr>"
| "request_of encode base api (SearchTickers query p perPage) =
     \<lparr>req_method = ''GET'',
      req_url = base @ ''/tickers?q='' @ encodeURIComponent query @ ''&'' @ paged p perPage,
      headers = getHeaders True api, req_body = None\<rparr>"
| "request_of encode base api (GetTicker tickerSymbol) =
     \<lparr>req_method = ''GET'', req_url = base @ ''/tickers/'' @ toUpperCase tickerSymbol,
      headers = getHeaders True api, req_body = None\<rparr>"
| "request_of encode base api (FollowTicker tickerSymbol) =
     \<lparr>req_method = ''POST'', req_url = base @ ''/tickers/'' @ toUpperCase tickerSymbol @ ''/follow'',
      headers = getHeaders True api, req_body = None\<rparr>"
| "request_of encode base api (UnfollowTicker tickerSymbol) =
     \<lparr>req_method = ''DELETE'',
      req_url = base @ ''/tickers/'' @ toUpperCase tickerSymbol @ ''/unfollow'',
      headers = getHeaders True api, req_body = None\<rparr>"
| "request_of encode base api GetFollowedTickers =
     \<lparr>req_method = ''GET'', req_url = base @ ''/tickers/following'',
      headers = getHeaders True api, req_body = None\<rparr>"
| "request_of encode base api (GetAllTopics params) =
     \<lparr>req_method = ''GET'', req_url = base @ ''/topics?'' @ query_string encode (query_pairs params),
      headers = getHeaders True api, req_body = None\<rparr>"
| "request_of encode base api (GetTopic topicId) =
     \<lparr>req_method = ''GET'', req_url = base @ ''/topics/'' @ topicId,
      headers = getHeaders True api, req_body = None\<rparr>"
| "request_of encode base api (GetTopicByName topicName) =
     \<lparr>req_method = ''GET'', req_url = base @ ''/topics/name/'' @ encodeURIComponent topicName,
      headers = getHeaders True api, req_body = None\<rparr>"
| "request_of encode base api (FollowTopic topicId) =
     \<lparr>req_method = ''POST'', req_url = base @ ''/topics/'' @ topicId @ ''/follow'',
      headers = getHeaders True api, req_body = None\<rparr>"
| "request_of encode base api (UnfollowTopic topicId) =
     \<lparr>req_method = ''DELETE'', req_url = base @ ''/topics/'' @ topicId @ ''/unfollow'',
      headers = getHeaders True api, req_body = None\<rparr>"
| "request_of encode base api GetFollowedTopics =
     \<lparr>req_method = ''GET'', req_url = base @ ''/topics/following'',
      headers = getHeaders True api, req_body = None\<rparr>"
| "request_of encode base api (IsFollowingTopic topicId) =
     \<lparr>req_method = ''GET'', req_url = base @ ''/topics/'' @ topicId @ ''/is-following'',
      headers = getHeaders True api, req_body = None\<rparr>"
| "request_of encode base api (GetTopicArticles topicId p perPage) =
     \<lparr>req_method = ''GET'',
      req_url = base @ ''/topics/'' @ topicId @ ''/articles?'' @ paged p perPage,
      headers = getHeaders True api, req_body = None\<rparr>"

subsection \<open>Responses\<close>

text \<open>
  A response: its status, and its body as \<open>response.json()\<close> delivers it (\<open>None\<close> when
  the body is not JSON and the promise is rejected). \<open>response.ok\<close> is a status from 200
  to 299.
\<close>

record http_response =
  status :: nat
  body :: "json option"

definition ok :: "http_response \<Rightarrow> bool" where
  "ok response = (200 \<le> status response \<and> status response \<le> 299)"

definition handleResponse ::
  "http_response \<Rightarrow> api_service \<times> storage \<Rightarrow> (js_error + json) \<times> (api_service \<times> storage)" where
  "handleResponse response env =
     (if status response = 401 then
        (Inl (Error ''Authentication required''), clearToken env)
      else if \<not> ok response then
        (let error = (case body response of
                        None \<Rightarrow> JObj [(''error'', JStr ''Request failed'')]
                      | Some j \<Rightarrow> j)
         in (case member error ''error'' of
               Inl e \<Rightarrow> (Inl e, env)
             | Inr None \<Rightarrow> (Inl (Error ''Request failed''), env)
             | Inr (Some m) \<Rightarrow>
                 (Inl (Error (if truthy m then to_str m else ''Request failed'')), env)))
      else
        (case body response of
           None \<Rightarrow> (Inl SyntaxError, env)
         | Some j \<Rightarrow> (Inr j, env)))"

text \<open>
  What \<open>register\<close> and \<open>login\<close> do with a successful answer: with a truthy
  \<open>access_token\<close> they save it and store the \<open>refresh_token\<close>, the latter outside any
  \<open>try\<close>.
\<close>

definition store_tokens ::
  "json \<Rightarrow> api_service \<times> storage \<Rightarrow> (js_error + json) \<times> (api_service \<times> storage)" where
  "store_tokens data env =
     (case member data ''access_token'' of
        Inl e \<Rightarrow> (Inl e, env)
      | Inr None \<Rightarrow> (Inr data, env)
      | Inr (Some tok) \<Rightarrow>
          if truthy tok then
            (let env1 = saveToken tok env
             in (case member data ''refresh_token'' of
                   Inl e \<Rightarrow> (Inl e, env1)
                 | Inr r \<Rightarrow>
                     (case setItem ''refresh_token'' r (snd env1) of
                        Inl e \<Rightarrow> (Inl e, env1)
                      | Inr st2 \<Rightarrow> (Inr data, (fst env1, st2)))))
          else (Inr data, env))"

text \<open>
  An operation from the answer of \<open>fetch\<close> on: a rejected \<open>fetch\<close> rejects the
  operation; every answer goes through \<open>handleResponse\<close>.
\<close>

definition perform ::
  "api_call \<Rightarrow> js_error + http_response \<Rightarrow> api_service \<times> storage
     \<Rightarrow> (js_error + json) \<times> (api_service \<times> storage)" where
  "perform call outcome env =
     (case outcome of
        Inl e \<Rightarrow> (Inl e, env)
      | Inr response \<Rightarrow>
          (case handleResponse response env of
             (Inl e, env1) \<Rightarrow> (Inl e, env1)
           | (Inr data, env1) \<Rightarrow>
               (case call of
                  Register name email password \<Rightarrow> store_tokens data env1
                | Login email password \<Rightarrow> store_tokens data env1
                | _ \<Rightarrow> (Inr data, env1))))"

text \<open>\<open>logout\<close> sends nothing.\<close>

definition logout :: "api_service \<times> storage \<Rightarrow> api_service \<times> storage" where
  "logout env = clearToken env"

section \<open>The chat screen (\<open>app/chat.tsx\<close>)\<close>

datatype role = System | User | Assistant

record message =
  role :: role
  content :: string

record chat_message = message +
  msg_id :: string
  msg_timestamp :: nat

record chat_params =
  context_param :: "string option"
  question_param :: "string option"

record chat_screen =
  messages :: "chat_message list"
  inputText :: string
  isLoading :: bool
  initialQuestion :: string

text \<open>
  The characters that \<open>text.trim()\<close> strips, each as its UTF-8 bytes: the white space of
  the language (U+0009, U+000B, U+000C, U+0020, U+00A0, U+FEFF and the space separators
  U+1680, U+2000 to U+200A, U+202F, U+205F, U+3000) and its line terminators (U+000A,
  U+000D, U+2028, U+2029).
\<close>

definition white_space :: "string list" where
  "white_space =
     [[CHR 0x09], [CHR 0x0A], [CHR 0x0B], [CHR 0x0C], [CHR 0x0D], [CHR 0x20],
      [CHR 0xC2, CHR 0xA0],
      [CHR 0xE1, CHR 0x9A, CHR 0x80],
      [CHR 0xE2, CHR 0x80, CHR 0x80], [CHR 0xE2, CHR 0x80, CHR 0x81],
      [CHR 0xE2, CHR 0x80, CHR 0x82], [CHR 0xE2, CHR 0x80, CHR 0x83],
      [CHR 0xE2, CHR 0x80, CHR 0x84], [CHR 0xE2, CHR 0x80, CHR 0x85],
      [CHR 0xE2, CHR 0x80, CHR 0x86], [CHR 0xE2, CHR 0x80, CHR 0x87],
      [CHR 0xE2, CHR 0x80, CHR 0x88], [CHR 0xE2, CHR 0x80, CHR 0x89],
      [CHR 0xE2, CHR 0x80, CHR 0x8A],
      [CHR 0xE2, CHR 0x80, CHR 0xA8], [CHR 0xE2, CHR 0x80, CHR 0xA9],
      [CHR 0xE2, CHR 0x80, CHR 0xAF],
      [CHR 0xE2, CHR 0x81, CHR 0x9F],
      [CHR 0xE3, CHR 0x80, CHR 0x80],
      [CHR 0xEF, CHR 0xBB, CHR 0xBF]]"

text \<open>
  \<open>strip ws x\<close> removes from the front of \<open>x\<close> every character of \<open>ws\<close> until \<open>x\<close> starts
  with none. \<open>trim\<close> strips the front, and the end as the front of the reversed text.
\<close>

fun strip :: "string list \<Rightarrow> string \<Rightarrow> string" where
  "strip ws [] = []"
| "strip ws (c # cs) =
     (case filter (\<lambda>w. w \<noteq> [] \<and> take (length w) (c # cs) = w) ws of
        [] \<Rightarrow> c # cs
      | w # rest \<Rightarrow> strip ws (drop (length w - 1) cs))"

definition trim :: "string \<Rightarrow> string" where
  "trim x = rev (strip (map rev white_space) (rev (strip white_space x)))"

text \<open>
  The article context of a render. \<open>json_parse\<close> is \<open>JSON.parse\<close> of the runtime, \<open>None\<close>
  where it throws. The parameter is parsed when it is a non-empty string, and a throw is
  caught and leaves the context \<open>undefined\<close>. Nothing checks the shape of the value.
\<close>

definition parse_context :: "(string \<Rightarrow> json option) \<Rightarrow> chat_params \<Rightarrow> json option" where
  "parse_context json_parse params =
     (case context_param params of
        None \<Rightarrow> None
      | Some c \<Rightarrow>
          if c \<noteq> [] then
            (case json_parse c of
               None \<Rightarrow> None
             | Some j \<Rightarrow> Some j)
          else None)"

text \<open>
  \<open>tickers.map(t => t.name).join(', ')\<close> on a context: \<open>tickers\<close> must be an array and no
  element \<open>null\<close>; a missing or \<open>null\<close> name joins as the empty string.
\<close>

fun ticker_names :: "json list \<Rightarrow> js_error + string list" where
  "ticker_names [] = Inr []"
| "ticker_names (t # ts) =
     (case member t ''name'' of
        Inl e \<Rightarrow> Inl e
      | Inr n \<Rightarrow>
          (case ticker_names ts of
             Inl e \<Rightarrow> Inl e
           | Inr ns \<Rightarrow>
               Inr ((case n of None \<Rightarrow> [] | Some v \<Rightarrow> if v = JNull then [] else to_str v) # ns)))"

definition welcome_content :: "json option \<Rightarrow> js_error + string" where
  "welcome_content articleContext =
     (case articleContext of
        None \<Rightarrow> Inr ''Hi! I'm Sensybull. How can I help you today?''
      | Some j \<Rightarrow>
          if truthy j then
            (case member j ''tickers'' of
               Inl e \<Rightarrow> Inl e
             | Inr (Some (JArr ts)) \<Rightarrow>
                 (case ticker_names ts of
                    Inl e \<Rightarrow> Inl e
                  | Inr ns \<Rightarrow>
                      Inr (''Hi! I'm here to help you understand this article about ''
                           @ join '', '' ns @ ''. What would you like to know?''))
             | Inr _ \<Rightarrow> Inl TypeError)
          else Inr ''Hi! I'm Sensybull. How can I help you today?'')"

text \<open>
  The screen after its mount effect, at time \<open>now\<close>: the transcript holds the welcome
  message, and an initial question, if there is one, is scheduled to be sent. A throw in
  the effect is the result \<open>Inl\<close>.
\<close>

definition ChatScreen ::
  "(string \<Rightarrow> json option) \<Rightarrow> chat_params \<Rightarrow> nat
     \<Rightarrow> js_error + (json option \<times> chat_screen \<times> string option)" where
  "ChatScreen json_parse params now =
     (let articleContext = parse_context json_parse params;
          question0 = (case question_param params of None \<Rightarrow> [] | Some q \<Rightarrow> q)
      in (case welcome_content articleContext of
            Inl e \<Rightarrow> Inl e
          | Inr c \<Rightarrow>
              Inr (articleContext,
                   \<lparr>messages = [\<lparr>role = Assistant, content = c, msg_id = dec now,
                                  msg_timestamp = now\<rparr>],
                    inputText = [], isLoading = False, initialQuestion = question0\<rparr>,
                   (if question0 \<noteq> [] then Some question0 else None))))"

text \<open>
  The state of the first render, before the mount effect has set the welcome message.
\<close>

definition first_render :: "chat_params \<Rightarrow> chat_screen" where
  "first_render params =
     \<lparr>messages = [], inputText = [], isLoading = False,
      initialQuestion = (case question_param params of None \<Rightarrow> [] | Some q \<Rightarrow> q)\<rparr>"

text \<open>
  The text that \<open>handleSendMessage(messageText)\<close> sends, \<open>messageText || inputText\<close>: the
  argument, or the input field when the argument is missing or empty.
\<close>

definition sent_text :: "string option \<Rightarrow> chat_screen \<Rightarrow> string" where
  "sent_text messageText s =
     (case messageText of
        None \<Rightarrow> inputText s
      | Some m \<Rightarrow> if m \<noteq> [] then m else inputText s)"

text \<open>
  \<open>handleSendMessage(messageText)\<close> up to its \<open>await\<close>: the new state, and the arguments
  of the call to the completion provider, if one is made. Each render makes its own
  \<open>handleSendMessage\<close>; \<open>closure\<close> is the state of the render whose function is called,
  from which it reads \<open>inputText\<close>, \<open>isLoading\<close> and \<open>messages\<close>, and \<open>s\<close> is the state of
  the moment, which it writes (\<open>setMessages(prev => [...prev, userMessage])\<close>). The
  input field and the send button call the function of the current render
  (\<open>closure = s\<close>); the timer that the mount effect sets for the initial question calls
  the function of the first render.
\<close>

definition handleSendMessage ::
  "json option \<Rightarrow> nat \<Rightarrow> string option \<Rightarrow> chat_screen \<Rightarrow> chat_screen
     \<Rightarrow> chat_screen \<times> (message list \<times> json option) option" where
  "handleSendMessage articleContext now messageText closure s =
     (let text = sent_text messageText closure
      in if trim text = [] \<or> isLoading closure then (s, None)
         else
           (let userMessage = \<lparr>role = User, content = trim text, msg_id = dec now,
                               msg_timestamp = now\<rparr>;
                conversationHistory =
                  map (\<lambda>m. \<lparr>role = role m, content = content m\<rparr>)
                      (filter (\<lambda>m. role m \<noteq> System) (messages closure))
                  @ [\<lparr>role = User, content = trim text\<rparr>]
            in (s\<lparr>messages := messages s @ [userMessage], inputText := [], isLoading := True\<rparr>,
                Some (conversationHistory, articleContext))))"

text \<open>From the \<open>await\<close> on: the reply, or the apology when the provider failed.\<close>

definition handleSendMessage_resolve :: "nat \<Rightarrow> js_error + string \<Rightarrow> chat_screen \<Rightarrow> chat_screen" where
  "handleSendMessage_resolve now result s =
     (let reply = (case result of
                     Inr response \<Rightarrow> response
                   | Inl e \<Rightarrow> ''I'm sorry, I encountered an error processing your question. Please try again.'')
      in s\<lparr>messages := messages s @ [\<lparr>role = Assistant, content = reply,
                                          msg_id = dec (now + 1), msg_timestamp = now\<rparr>],
           isLoading := False\<rparr>)"

section \<open>Example data\<close>

text \<open>
  The scenario of the specification: a feed that holds the 20 articles of page 1 (ids 1 to
  20), and a page 2 of 20 articles of which five (ids 16 to 20) are in page 1 already.
\<close>

definition sample_article :: "nat \<Rightarrow> article" where
  "sample_article n =
     \<lparr>article_id = dec n, title = ''t'', summary = ''s'', url = ''u'', provider = ''p'',
      timestamp = int n, tickers = []\<rparr>"

definition sample_feed :: topic_feed where
  "sample_feed =
     \<lparr>topics = [\<lparr>topic_id = ''for-you'', topic_name = ''Watchlist''\<rparr>],
      selectedTopicIndex = 0,
      articlesByTopic = [''for-you'' \<mapsto> map sample_article [1..<21]],
      loadingArticles = False,
      page_t = [''for-you'' \<mapsto> 1],
      hasMore_t = [''for-you'' \<mapsto> True]\<rparr>"

definition sample_page2 :: articles_response where
  "sample_page2 = \<lparr>articles = map sample_article [16..<36], has_next = True\<rparr>"

definition sample_deck :: swipe_deck where
  "sample_deck =
     \<lparr>articles_s = [], loading_s = True, currentIndex = 0, fetchingMore = False, page_s = 1\<rparr>"

definition sample_stock :: stock_feed where
  "sample_stock =
     \<lparr>symbol = Some ''AAPL'', articles_k = [], loading_k = True, loadingMore = False,
      page_k = 1, hasMore_k = True\<rparr>"

text \<open>
  A stand-in for \<open>JSON.parse\<close> to run the examples with: it knows three JSON texts and
  throws on every other text.
\<close>

definition sample_json_parse :: "string \<Rightarrow> json option" where
  "sample_json_parse x =
     (if x = ''null'' then Some JNull
      else if x = ''[]'' then Some (JArr [])
      else if x = ''{}'' then Some (JObj [])
      else None)"

text \<open>
  A topic feed with two tabs, the first one loaded; a course of events in which two loads
  overlap and the later one is answered first; a search session on the list screen in
  which a refresh is answered after a later search; a chat opened with a question.
\<close>

definition sample_tabs :: topic_world where
  "sample_tabs =
     \<lparr>screen_t = sample_feed
        \<lparr>topics := [\<lparr>topic_id = ''for-you'', topic_name = ''Watchlist''\<rparr>,
                    \<lparr>topic_id = ''7'', topic_name = ''Energy''\<rparr>]\<rparr>,
      in_flight = []\<rparr>"

definition overlapping_loads :: "topic_event list" where
  "overlapping_loads =
     [TopicEndReached,
      TopicChange 1,
      TopicAnswer 1 (Inr \<lparr>articles = [sample_article 40], has_next = True\<rparr>),
      TopicChange 0]"

definition stale_refresh :: "(nat \<times> event) list" where
  "stale_refresh =
     [(300, Arrive 0 (Inr \<lparr>articles = [sample_article 1], has_next = True\<rparr>)),
      (1000, Keystroke ''a''),
      (1800, Arrive 1 (Inr \<lparr>articles = [sample_article 2], has_next = True\<rparr>)),
      (3000, Refresh),
      (3100, Keystroke ''ab''),
      (3800, Arrive 3 (Inr \<lparr>articles = [sample_article 4], has_next = True\<rparr>)),
      (3900, Arrive 2 (Inr \<lparr>articles = [sample_article 3], has_next = True\<rparr>))]"

definition asking_params :: chat_params where
  "asking_params = \<lparr>context_param = None, question_param = Some ''why?''\<rparr>"

definition asking_mounted :: chat_screen where
  "asking_mounted =
     \<lparr>messages = [\<lparr>role = Assistant, content = ''Hi! I'm Sensybull. How can I help you today?'',
                    msg_id = ''0'', msg_timestamp = 0\<rparr>],
      inputText = [], isLoading = False, initialQuestion = ''why?''\<rparr>"

definition asking_sending :: chat_screen where
  "asking_sending =
     fst (handleSendMessage None 100 None (asking_mounted\<lparr>inputText := ''hi''\<rparr>)
            (asking_mounted\<lparr>inputText := ''hi''\<rparr>))"

section \<open>Properties of the topic feed\<close>






















section \<open>Properties of the pagers\<close>

text \<open>
  C2, as amended. For every prior state, a successful page-1 load replaces the feed's list
  with the articles of the response and sets the page counter to 1, in the list screen,
  in the topic feed (for the topic loaded) and in the stock timeline. Has-more is the
  response's \<open>has_next\<close> in the list screen and in the topic feed; the stock timeline does
  not read \<open>has_next\<close> and sets has-more to whether the page holds exactly 20 articles.
\<close>

theorem loadFirst_replaces_feed:
  "articles_l (loadArticles_resolve 1 (Inr response) s) = articles response \<and>
   hasMore_l (loadArticles_resolve 1 (Inr response) s) = has_next response \<and>
   page_l (loadArticles_resolve 1 (Inr response) s) = 1 \<and>
   feed_articles (loadArticlesForTopic k 1 (Inr response) t) k = articles response \<and>
   hasMore_t (loadArticlesForTopic k 1 (Inr response) t) k = Some (has_next response) \<and>
   page_t (loadArticlesForTopic k 1 (Inr response) t) k = Some 1 \<and>
   articles_k (loadArticles_stock_resolve captured 1 (Inr response) u) = articles response \<and>
   page_k (loadArticles_stock_resolve captured 1 (Inr response) u) = 1 \<and>
   hasMore_k (loadArticles_stock_resolve captured 1 (Inr response) u) =
     (length (articles response) = 20)"
  by (simp add: loadArticles_resolve_def loadArticlesForTopic_def
      loadArticlesForTopic_resolve_def loadArticlesForTopic_begin_def feed_articles_def
      loadArticles_stock_resolve_def Let_def)

theorem stock_hasMore_counterexample:
  "snd (loadArticles_stock_begin 1 sample_stock) = Some (GetArticlesByTicker ''AAPL'' 1 20) \<and>
   has_next \<lparr>articles = [sample_article 1], has_next = True\<rparr> \<and>
   \<not> hasMore_k
       (loadArticles_stock_resolve (articles_k sample_stock) 1
          (Inr \<lparr>articles = [sample_article 1], has_next = True\<rparr>)
          (fst (loadArticles_stock_begin 1 sample_stock)))"
  by code_simp

text \<open>
  C4, as amended. In the topic feed, a \<open>loadNext\<close> while the flag \<open>loadingArticles\<close> is
  set, or when has-more of the selected topic is false, sends nothing and leaves the
  whole state and the loads in flight as they are; it does not throw. Every load sets the
  flag when it starts, and the end of any load clears it.
\<close>

theorem handleLoadMore_is_noop:
  assumes "loadingArticles s \<or>
           (selectedTopicIndex s < length (topics s) \<and>
            hasMore_t s (topic_id (topics s ! selectedTopicIndex s)) = Some False)"
  shows "handleLoadMore s = Inr None \<and>
         loadNext result s = (s, None) \<and>
         topic_step TopicEndReached \<lparr>screen_t = s, in_flight = loads\<rparr> =
           Inr \<lparr>screen_t = s, in_flight = loads\<rparr> \<and>
         loadingArticles (loadArticlesForTopic_begin s0) \<and>
         \<not> loadingArticles (loadArticlesForTopic_resolve captured k pageNum answer s0)"
proof -
  have h: "handleLoadMore s = Inr None"
    using assms by (auto simp: handleLoadMore_def Let_def)
  have "\<not> loadingArticles (loadArticlesForTopic_resolve captured k pageNum answer s0)"
    by (cases answer) (simp_all add: loadArticlesForTopic_resolve_def Let_def)
  with h show ?thesis
    by (simp add: loadNext_def topic_step_def loadArticlesForTopic_begin_def)
qed

theorem handleLoadMore_is_noop_witness:
  "loadingArticles (sample_feed\<lparr>loadingArticles := True\<rparr>) \<and>
   handleLoadMore (sample_feed\<lparr>loadingArticles := True\<rparr>) = Inr None \<and>
   loadNext (Inr sample_page2) (sample_feed\<lparr>loadingArticles := True\<rparr>) =
     (sample_feed\<lparr>loadingArticles := True\<rparr>, None) \<and>
   selectedTopicIndex (sample_feed\<lparr>hasMore_t := [''for-you'' \<mapsto> False]\<rparr>)
     < length (topics (sample_feed\<lparr>hasMore_t := [''for-you'' \<mapsto> False]\<rparr>)) \<and>
   hasMore_t (sample_feed\<lparr>hasMore_t := [''for-you'' \<mapsto> False]\<rparr>)
     (topic_id (topics (sample_feed\<lparr>hasMore_t := [''for-you'' \<mapsto> False]\<rparr>)
        ! selectedTopicIndex (sample_feed\<lparr>hasMore_t := [''for-you'' \<mapsto> False]\<rparr>))) = Some False \<and>
   loadNext (Inr sample_page2) (sample_feed\<lparr>hasMore_t := [''for-you'' \<mapsto> False]\<rparr>) =
     (sample_feed\<lparr>hasMore_t := [''for-you'' \<mapsto> False]\<rparr>, None)"
proof -
  let ?a = "sample_feed\<lparr>loadingArticles := True\<rparr>"
  let ?b = "sample_feed\<lparr>hasMore_t := [''for-you'' \<mapsto> False]\<rparr>"
  have a: "loadingArticles ?a" by simp
  have b1: "selectedTopicIndex ?b < length (topics ?b)" by (simp add: sample_feed_def)
  have b2: "hasMore_t ?b (topic_id (topics ?b ! selectedTopicIndex ?b)) = Some False"
    by (simp add: sample_feed_def)
  from a have ha: "loadingArticles ?a \<or>
      (selectedTopicIndex ?a < length (topics ?a) \<and>
       hasMore_t ?a (topic_id (topics ?a ! selectedTopicIndex ?a)) = Some False)" by (rule disjI1)
  from b1 b2 have hb: "loadingArticles ?b \<or>
      (selectedTopicIndex ?b < length (topics ?b) \<and>
       hasMore_t ?b (topic_id (topics ?b ! selectedTopicIndex ?b)) = Some False)" by blast
  note ra = handleLoadMore_is_noop [OF ha, of "Inr sample_page2"]
  note rb = handleLoadMore_is_noop [OF hb, of "Inr sample_page2"]
  show ?thesis using a b1 b2 ra rb by blast
qed

theorem loadNext_in_flight_counterexample:
  "\<not> isl (topic_run overlapping_loads sample_tabs) \<and>
   map (\<lambda>l. (load_topic l, load_page l))
     (in_flight (projr (topic_run overlapping_loads sample_tabs))) = [(''for-you'', 2)] \<and>
   handleLoadMore (screen_t (projr (topic_run overlapping_loads sample_tabs))) =
     Inr (Some (''for-you'', 2)) \<and>
   articles_s (loadArticles_swipe_resolve 1
                 (Inr \<lparr>articles = [sample_article 1], has_next = False\<rparr>)
                 (loadArticles_swipe_begin 1 sample_deck)) = [sample_article 1] \<and>
   snd (handleSwiped 0
          (loadArticles_swipe_resolve 1
             (Inr \<lparr>articles = [sample_article 1], has_next = False\<rparr>)
             (loadArticles_swipe_begin 1 sample_deck))) =
     Some (GetArticles [(''page'', Some (Num 2)), (''per_page'', Some (Num 20))])"
  by code_simp

text \<open>
  C5, as amended. The list screen applies the answer to a fetch when it arrives and
  keeps no record of which request was sent last: after the answers to page-1 fetches (a
  debounced search, a refresh) have arrived in any order, the feed shows the one that
  arrived last (its articles, its \<open>has_next\<close>, page 1), whichever request it answers.
\<close>

theorem last_arrival_wins:
  "articles_l (fold (\<lambda>r. loadArticles_resolve 1 (Inr r)) (earlier @ [response]) s) =
     articles response \<and>
   hasMore_l (fold (\<lambda>r. loadArticles_resolve 1 (Inr r)) (earlier @ [response]) s) =
     has_next response \<and>
   page_l (fold (\<lambda>r. loadArticles_resolve 1 (Inr r)) (earlier @ [response]) s) = 1"
  by (simp add: loadArticles_resolve_def)

theorem stale_refresh_counterexample:
  "map_option (\<lambda>(w, answered). (calls w, searchQuery (feed w), articles_l (feed w)))
     (run_offered stale_refresh (initial_world, [])) =
     Some ([(0, 1, []), (1500, 1, ''a''), (3000, 1, ''a''), (3600, 1, ''ab'')],
           ''ab'', [sample_article 3]) \<and>
   [sample_article 3] \<noteq> [sample_article 4]"
  by code_simp

lemma search_fetch_hides_list: "\<not> list_shown (feed (fire x w))"
  by (simp add: list_shown_def fire_def)

lemma handleSearch_idle:
  "handleSearch x \<lparr>feed = f, timers = [], next_id = m, clock = c, calls = cs\<rparr> =
     \<lparr>feed = f\<lparr>searchQuery := x, searchTimer := Some m\<rparr>,
      timers = [\<lparr>timer_id = m, due = c + 500, timer_text = x\<rparr>],
      next_id = m + 1, clock = c, calls = cs\<rparr>"
  by (simp add: handleSearch_def split: option.splits)

lemma handleSearch_pending:
  assumes "searchTimer g = Some m" and "m \<noteq> 0"
  shows "handleSearch x
           \<lparr>feed = g, timers = [\<lparr>timer_id = m, due = d, timer_text = y\<rparr>],
            next_id = k, clock = c, calls = cs\<rparr> =
         \<lparr>feed = g\<lparr>searchQuery := x, searchTimer := Some k\<rparr>,
          timers = [\<lparr>timer_id = k, due = c + 500, timer_text = x\<rparr>],
          next_id = k + 1, clock = c, calls = cs\<rparr>"
  using assms by (simp add: handleSearch_def)

lemma advance_early:
  assumes "t < d"
  shows "advance t
           \<lparr>feed = g, timers = [\<lparr>timer_id = m, due = d, timer_text = y\<rparr>],
            next_id = k, clock = c, calls = cs\<rparr> =
         \<lparr>feed = g, timers = [\<lparr>timer_id = m, due = d, timer_text = y\<rparr>],
          next_id = k, clock = max t c, calls = cs\<rparr>"
  using assms by (simp add: advance_def)

lemma advance_idle:
  "advance t \<lparr>feed = g, timers = [], next_id = k, clock = c, calls = cs\<rparr> =
     \<lparr>feed = g, timers = [], next_id = k, clock = max t c, calls = cs\<rparr>"
  by (simp add: advance_def)

lemma advance_late:
  assumes "d \<le> t"
  shows "advance t
           \<lparr>feed = g, timers = [\<lparr>timer_id = m, due = d, timer_text = y\<rparr>],
            next_id = k, clock = c, calls = cs\<rparr> =
         \<lparr>feed = g\<lparr>page_l := 1, loading_l := True\<rparr>, timers = [],
          next_id = k, clock = max t c, calls = cs @ [(d, 1, y)]\<rparr>"
  using assms by (simp add: advance_def fire_def)

lemma four_keystrokes:
  "run_events
     [(0, Keystroke x1), (100, Keystroke x2), (200, Keystroke x3), (300, Keystroke x4)]
     \<lparr>feed = f, timers = [], next_id = Suc n, clock = 0, calls = []\<rparr> =
   \<lparr>feed = f\<lparr>searchQuery := x4, searchTimer := Some (n + 4)\<rparr>,
    timers = [\<lparr>timer_id = n + 4, due = 800, timer_text = x4\<rparr>],
    next_id = n + 5, clock = 300, calls = []\<rparr>"
  by (simp add: handle_event_def advance_idle handleSearch_idle advance_early
      handleSearch_pending)

text \<open>
  C8. From any state of the list with no timer pending at time 0, keystrokes at 0, 100,
  200 and 300 ms, whatever their texts, leave one timer pending, the last one, due at
  800 ms. So the \<open>loadArticles\<close> calls made up to any time \<open>T\<close> are none before 800 ms
  and from 800 ms on exactly one, made at 800 ms, for page 1 and with the text of the
  keystroke at 300 ms.
\<close>

theorem debounced_search_fetches_once:
  "calls (advance T (run_events
       [(0, Keystroke x1), (100, Keystroke x2), (200, Keystroke x3), (300, Keystroke x4)]
       \<lparr>feed = f, timers = [], next_id = Suc n, clock = 0, calls = []\<rparr>)) =
     (if T < 800 then [] else [(800, 1, x4)]) \<and>
   timers (advance T (run_events
       [(0, Keystroke x1), (100, Keystroke x2), (200, Keystroke x3), (300, Keystroke x4)]
       \<lparr>feed = f, timers = [], next_id = Suc n, clock = 0, calls = []\<rparr>)) =
     (if T < 800 then [\<lparr>timer_id = n + 4, due = 800, timer_text = x4\<rparr>] else []) \<and>
   loadArticles_call 1 x4 =
     GetArticles [(''page'', Some (Num 1)), (''per_page'', Some (Num 20)),
                  (''search'', if x4 = [] then None else Some (Str x4))]"
proof (cases "T < 800")
  case True
  then show ?thesis
    by (simp only: four_keystrokes advance_early [OF True])
       (simp add: loadArticles_call_def)
next
  case False
  then have "800 \<le> T" by simp
  then show ?thesis using False
    by (simp only: four_keystrokes advance_late)
       (simp add: loadArticles_call_def)
qed

section \<open>Properties of the API service\<close>

lemma clearToken_succeeds:
  assumes "\<not> failing st ''access_token''" and "\<not> failing st ''refresh_token''"
  shows "clearToken (api, st) =
           (api\<lparr>token := None\<rparr>,
            st\<lparr>items := (items st)(''access_token'' := None, ''refresh_token'' := None)\<rparr>)"
  using assms by (simp add: clearToken_def removeItem_def)

lemma perform_unauthorized:
  "status response = 401 \<Longrightarrow>
   perform call (Inr response) env = (Inl (Error ''Authentication required''), clearToken env)"
  by (simp add: perform_def handleResponse_def)

text \<open>
  C3, as amended. For every operation that sends a request, every prior token and every
  stored items, an answer with status 401 makes the operation fail with the error
  \<open>Authentication required\<close>; and when the storage carries out the two removals, the
  keys \<open>access_token\<close> and \<open>refresh_token\<close> are removed and the token in memory is null.
  A removal that the storage rejects is caught inside \<open>clearToken\<close>.
\<close>

theorem unauthorized_clears_tokens:
  assumes "status response = 401"
  shows "fst (perform call (Inr response) (api, st)) = Inl (Error ''Authentication required'') \<and>
         (\<not> failing st ''access_token'' \<and> \<not> failing st ''refresh_token'' \<longrightarrow>
            snd (perform call (Inr response) (api, st)) =
              (api\<lparr>token := None\<rparr>,
               st\<lparr>items := (items st)(''access_token'' := None, ''refresh_token'' := None)\<rparr>) \<and>
            token (fst (snd (perform call (Inr response) (api, st)))) = None \<and>
            items (snd (snd (perform call (Inr response) (api, st)))) ''access_token'' = None \<and>
            items (snd (snd (perform call (Inr response) (api, st)))) ''refresh_token'' = None)"
  by (simp add: perform_unauthorized [OF assms] clearToken_succeeds)

theorem unauthorized_clears_tokens_witness:
  "status \<lparr>status = 401, body = None\<rparr> = 401 \<and>
   \<not> failing \<lparr>items = [''access_token'' \<mapsto> ''abc'', ''refresh_token'' \<mapsto> ''def''],
               failing = (\<lambda>k. False)\<rparr> ''access_token'' \<and>
   \<not> failing \<lparr>items = [''access_token'' \<mapsto> ''abc'', ''refresh_token'' \<mapsto> ''def''],
               failing = (\<lambda>k. False)\<rparr> ''refresh_token'' \<and>
   perform GetCurrentUser (Inr \<lparr>status = 401, body = None\<rparr>)
     (\<lparr>token = Some ''abc''\<rparr>,
      \<lparr>items = [''access_token'' \<mapsto> ''abc'', ''refresh_token'' \<mapsto> ''def''],
       failing = (\<lambda>k. False)\<rparr>) =
     (Inl (Error ''Authentication required''),
      (\<lparr>token = None\<rparr>, \<lparr>items = Map.empty, failing = (\<lambda>k. False)\<rparr>))"
proof -
  let ?r = "\<lparr>status = 401, body = None\<rparr>"
  let ?st = "\<lparr>items = [''access_token'' \<mapsto> ''abc'', ''refresh_token'' \<mapsto> ''def''],
              failing = (\<lambda>k. False)\<rparr>"
  have h: "status ?r = 401" by simp
  have f1: "\<not> failing ?st ''access_token''" and f2: "\<not> failing ?st ''refresh_token''"
    by simp_all
  note t = unauthorized_clears_tokens [OF h, of GetCurrentUser "\<lparr>token = Some ''abc''\<rparr>" ?st]
  from t have a: "fst (perform GetCurrentUser (Inr ?r) (\<lparr>token = Some ''abc''\<rparr>, ?st)) =
      Inl (Error ''Authentication required'')" by (rule conjunct1)
  from t f1 f2 have b: "snd (perform GetCurrentUser (Inr ?r) (\<lparr>token = Some ''abc''\<rparr>, ?st)) =
      (\<lparr>token = Some ''abc''\<rparr>\<lparr>token := None\<rparr>,
       ?st\<lparr>items := (items ?st)(''access_token'' := None, ''refresh_token'' := None)\<rparr>)"
    by blast
  have c: "(items ?st)(''access_token'' := None, ''refresh_token'' := None) = Map.empty"
    by (rule ext) simp
  have "perform GetCurrentUser (Inr ?r) (\<lparr>token = Some ''abc''\<rparr>, ?st) =
      (Inl (Error ''Authentication required''),
       (\<lparr>token = None\<rparr>, \<lparr>items = Map.empty, failing = (\<lambda>k. False)\<rparr>))"
    using a b c by (simp add: prod_eq_iff)
  with h f1 f2 show ?thesis by blast
qed

theorem unauthorized_storage_error_counterexample:
  "status \<lparr>status = 401, body = None\<rparr> = 401 \<and>
   token (fst (snd (perform GetCurrentUser (Inr \<lparr>status = 401, body = None\<rparr>)
     (\<lparr>token = Some ''abc''\<rparr>,
      \<lparr>items = [''access_token'' \<mapsto> ''abc'', ''refresh_token'' \<mapsto> ''def''],
       failing = (\<lambda>k. k = ''refresh_token'')\<rparr>)))) = Some ''abc'' \<and>
   items (snd (snd (perform GetCurrentUser (Inr \<lparr>status = 401, body = None\<rparr>)
     (\<lparr>token = Some ''abc''\<rparr>,
      \<lparr>items = [''access_token'' \<mapsto> ''abc'', ''refresh_token'' \<mapsto> ''def''],
       failing = (\<lambda>k. k = ''refresh_token'')\<rparr>)))) ''refresh_token'' = Some ''def''"
  by (simp add: perform_def handleResponse_def clearToken_def removeItem_def)

lemma toUpperCase_no_lower:
  "c \<in> set (toUpperCase x) \<Longrightarrow> \<not> (97 \<le> (of_char c :: nat) \<and> (of_char c :: nat) \<le> 122)"
  by (auto simp: toUpperCase_def Let_def split: if_splits)

lemma ticker_paths_upper_case:
  "req_url (request_of encode base api (GetTicker x)) = base @ ''/tickers/'' @ toUpperCase x \<and>
   req_url (request_of encode base api (FollowTicker x)) =
     base @ ''/tickers/'' @ toUpperCase x @ ''/follow'' \<and>
   req_url (request_of encode base api (UnfollowTicker x)) =
     base @ ''/tickers/'' @ toUpperCase x @ ''/unfollow''"
  by simp

text \<open>
  C6. \<open>getTicker\<close>, \<open>followTicker\<close> and \<open>unfollowTicker\<close> put the symbol into the path in
  upper case; \<open>getArticlesByTicker\<close> puts it there as it was given.
\<close>

theorem getArticlesByTicker_keeps_case:
  "req_url (request_of encode base api (GetArticlesByTicker ''aapl'' 1 20)) =
     base @ ''/articles/ticker/aapl?page=1&per_page=20'' \<and>
   req_url (request_of encode base api (GetTicker ''aapl'')) = base @ ''/tickers/AAPL''"
proof -
  have "paged 1 20 = ''page=1&per_page=20''" by code_simp
  moreover have "toUpperCase ''aapl'' = ''AAPL''" by code_simp
  ultimately show ?thesis by simp
qed

lemma fold_query_pairs:
  "fold (\<lambda>(key, value) queryParams.
           (case value of None \<Rightarrow> queryParams | Some v \<Rightarrow> queryParams @ [(key, to_string v)]))
        params acc =
   acc @ concat (map (\<lambda>(key, value).
                  (case value of None \<Rightarrow> [] | Some v \<Rightarrow> [(key, to_string v)])) params)"
  by (induction params arbitrary: acc) (auto split: option.splits)

lemma query_pairs_eq:
  "query_pairs params =
     concat (map (\<lambda>(key, value).
               (case value of None \<Rightarrow> [] | Some v \<Rightarrow> [(key, to_string v)])) params)"
  by (simp add: query_pairs_def fold_query_pairs)

lemma query_pairs_set:
  "set (query_pairs params) = {(k, to_string v) | k v. (k, Some v) \<in> set params}"
  by (auto simp: query_pairs_eq split: option.splits)

text \<open>
  C7. The pairs that \<open>getArticles\<close> and \<open>getAllTopics\<close> put into the query string are the
  entries of the parameter object whose value is defined, in their order, each with the
  string form of its value; the URL is the path followed by these pairs in the form
  encoding. So, the keys of an object being distinct, a parameter whose value is
  \<open>undefined\<close> has no pair at all, and a defined parameter has the pair of its key and
  its string form.
\<close>

theorem undefined_parameters_are_omitted:
  assumes "distinct (map fst params)"
  shows "query_pairs params =
           concat (map (\<lambda>(key, value).
                     (case value of None \<Rightarrow> [] | Some v \<Rightarrow> [(key, to_string v)])) params) \<and>
         ((k1, None) \<in> set params \<longrightarrow> k1 \<notin> fst ` set (query_pairs params)) \<and>
         ((k2, Some v) \<in> set params \<longrightarrow> (k2, to_string v) \<in> set (query_pairs params)) \<and>
         req_url (request_of encode base api (GetArticles params)) =
           base @ ''/articles?'' @ query_string encode (query_pairs params) \<and>
         req_url (request_of encode base api (GetAllTopics params)) =
           base @ ''/topics?'' @ query_string encode (query_pairs params)"
proof (intro conjI impI)
  show "query_pairs params =
          concat (map (\<lambda>(key, value).
                    (case value of None \<Rightarrow> [] | Some v \<Rightarrow> [(key, to_string v)])) params)"
    by (rule query_pairs_eq)
next
  assume n: "(k1, None) \<in> set params"
  show "k1 \<notin> fst ` set (query_pairs params)"
  proof
    assume "k1 \<in> fst ` set (query_pairs params)"
    then obtain w where "(k1, Some w) \<in> set params"
      by (auto simp: query_pairs_set)
    with n assms have "Some w = (None :: param_value option)"
      by (metis eq_key_imp_eq_value)
    then show False by simp
  qed
next
  assume "(k2, Some v) \<in> set params"
  then show "(k2, to_string v) \<in> set (query_pairs params)"
    by (auto simp: query_pairs_set)
qed simp_all

theorem undefined_parameters_are_omitted_witness:
  "distinct (map fst [(''page'', Some (Num 1)), (''per_page'', Some (Num 20)),
                      (''search'', None :: param_value option)]) \<and>
   (''search'', None) \<in> set [(''page'', Some (Num 1)), (''per_page'', Some (Num 20)),
                               (''search'', None)] \<and>
   (''per_page'', Some (Num 20)) \<in> set [(''page'', Some (Num 1)), (''per_page'', Some (Num 20)),
                               (''search'', None)] \<and>
   ''search'' \<notin> fst ` set (query_pairs [(''page'', Some (Num 1)), (''per_page'', Some (Num 20)),
                               (''search'', None)]) \<and>
   (''per_page'', ''20'') \<in> set (query_pairs [(''page'', Some (Num 1)),
                               (''per_page'', Some (Num 20)), (''search'', None)]) \<and>
   req_url (request_of form_encode ''B'' \<lparr>token = None\<rparr>
     (GetArticles [(''page'', Some (Num 1)), (''per_page'', Some (Num 20)), (''search'', None)])) =
     ''B/articles?page=1&per_page=20''"
proof -
  let ?p = "[(''page'', Some (Num 1)), (''per_page'', Some (Num 20)),
             (''search'', None :: param_value option)]"
  have d: "distinct (map fst ?p)" by simp
  have m1: "(''search'', None) \<in> set ?p" by simp
  have m2: "(''per_page'', Some (Num 20)) \<in> set ?p" by simp
  note t = undefined_parameters_are_omitted
    [OF d, of "''search''" "''per_page''" "Num 20" form_encode "''B''" "\<lparr>token = None\<rparr>"]
  have s: "to_string (Num 20) = ''20''" by code_simp
  from t m1 have a: "''search'' \<notin> fst ` set (query_pairs ?p)" by blast
  from t m2 have "(''per_page'', to_string (Num 20)) \<in> set (query_pairs ?p)" by blast
  then have b: "(''per_page'', ''20'') \<in> set (query_pairs ?p)" by (simp only: s)
  have c: "req_url (request_of form_encode ''B'' \<lparr>token = None\<rparr> (GetArticles ?p)) =
      ''B/articles?page=1&per_page=20''" by code_simp
  show ?thesis using d m1 m2 a b c by blast
qed


section \<open>Properties of the chat screen\<close>

lemma trim_examples:
  "trim '' hi  '' = ''hi'' \<and> trim ''   '' = [] \<and> trim [] = [] \<and>
   trim [CHR 0xC2, CHR 0xA0, CHR 0x20, CHR 0xE2, CHR 0x80, CHR 0xA8, CHR 0xEF, CHR 0xBB, CHR 0xBF] = [] \<and>
   trim [CHR 0xC2, CHR 0xA0, CHR ''a'', CHR 0xE3, CHR 0x80, CHR 0x80] = ''a''"
  by code_simp

lemma handleSendMessage_guard:
  "trim (sent_text messageText closure) = [] \<or> isLoading closure \<Longrightarrow>
   handleSendMessage articleContext now messageText closure s = (s, None)"
  by (auto simp: handleSendMessage_def Let_def)

text \<open>
  C9. \<open>handleSendMessage\<close> is a no-op when its text trims to empty or when the
  \<open>isLoading\<close> it reads is set (\<open>handleSendMessage_guard\<close>), and it reads \<open>isLoading\<close> from
  the render that made it. So a send while a previous send is in flight is a no-op from
  the send button and the input field, and is not from the mount effect's timer, which
  calls the function of the first render. Evaluated: the chat is opened with the question
  \<open>why?\<close>; the user types \<open>hi\<close> and sends it 100 ms after the mount, and the reply has
  not come when the timer fires at 500 ms. With that send in flight, the timer's call
  adds the question to the transcript and calls the completion provider; the function of
  the current render, called with the same text, changes nothing and calls nothing.
\<close>

theorem initial_question_sent_while_in_flight:
  "ChatScreen sample_json_parse asking_params 0 = Inr (None, asking_mounted, Some ''why?'') \<and>
   snd (handleSendMessage None 100 None (asking_mounted\<lparr>inputText := ''hi''\<rparr>)
          (asking_mounted\<lparr>inputText := ''hi''\<rparr>)) =
     Some ([\<lparr>role = Assistant, content = ''Hi! I'm Sensybull. How can I help you today?''\<rparr>,
            \<lparr>role = User, content = ''hi''\<rparr>], None) \<and>
   isLoading asking_sending \<and>
   handleSendMessage None 500 (Some ''why?'') (first_render asking_params) asking_sending =
     (asking_sending
        \<lparr>messages := messages asking_sending @
           [\<lparr>role = User, content = ''why?'', msg_id = ''500'', msg_timestamp = 500\<rparr>],
         inputText := [], isLoading := True\<rparr>,
      Some ([\<lparr>role = User, content = ''why?''\<rparr>], None)) \<and>
   handleSendMessage None 500 (Some ''why?'') asking_sending asking_sending =
     (asking_sending, None)"
  by code_simp

text \<open>
  C10. When the \<open>context\<close> parameter is a text on which \<open>JSON.parse\<close> throws, the throw is
  caught: the article context is \<open>undefined\<close>, the mount effect does not throw, and the
  screen is the one that no \<open>context\<close> parameter gives, with the plain welcome message.
\<close>

theorem malformed_context_is_no_context:
  assumes "json_parse c = None"
  shows "parse_context json_parse (params\<lparr>context_param := Some c\<rparr>) = None \<and>
         ChatScreen json_parse (params\<lparr>context_param := Some c\<rparr>) now =
           ChatScreen json_parse (params\<lparr>context_param := None\<rparr>) now \<and>
         ChatScreen json_parse (params\<lparr>context_param := Some c\<rparr>) now =
           Inr (None,
                \<lparr>messages = [\<lparr>role = Assistant,
                               content = ''Hi! I'm Sensybull. How can I help you today?'',
                               msg_id = dec now, msg_timestamp = now\<rparr>],
                 inputText = [], isLoading = False,
                 initialQuestion = (case question_param params of None \<Rightarrow> [] | Some q \<Rightarrow> q)\<rparr>,
                (if (case question_param params of None \<Rightarrow> [] | Some q \<Rightarrow> q) \<noteq> []
                 then Some (case question_param params of None \<Rightarrow> [] | Some q \<Rightarrow> q)
                 else None))"
  using assms
  by (simp add: parse_context_def ChatScreen_def welcome_content_def Let_def)

theorem malformed_context_is_no_context_witness:
  "sample_json_parse ''{oops'' = None \<and>
   parse_context sample_json_parse \<lparr>context_param = Some ''{oops'', question_param = None\<rparr> = None \<and>
   ChatScreen sample_json_parse \<lparr>context_param = Some ''{oops'', question_param = None\<rparr> 7 =
     ChatScreen sample_json_parse \<lparr>context_param = None, question_param = None\<rparr> 7"
proof -
  have h: "sample_json_parse ''{oops'' = None" by code_simp
  note t = malformed_context_is_no_context
    [of sample_json_parse "''{oops''" "\<lparr>context_param = None, question_param = None\<rparr>" 7,
     OF h]
  show ?thesis using h t by simp
qed


end
